theory Spec2Isabelle
  imports Complex_Main
begin

section \<open>The loan calculator: data model\<close>

text \<open>
  The amortization core of \<^verbatim>\<open>app.py\<close> is the function \<^verbatim>\<open>payment\<close>, the guarded
  assignment of \<^verbatim>\<open>scheduled_payment\<close> and the \<^verbatim>\<open>while\<close> loop that builds the
  schedule. Python's \<^verbatim>\<open>float\<close> values are modelled as exact reals: every arithmetic
  operation is the mathematical one, with no rounding, overflow or NaN. Python's
  \<^verbatim>\<open>int\<close> values (\<^verbatim>\<open>periods\<close>, the counter \<^verbatim>\<open>i\<close>) are \<^typ>\<open>int\<close>.
  The rounding of the table columns to two decimals (line 99) is presentation and comes
  after the loop; the rows modelled here are the dictionaries as the loop appends them.
  The variable \<^verbatim>\<open>principal\<close> is written \<open>loan_principal\<close>, since \<open>principal\<close> is
  already a constant of the library.
\<close>

datatype error = ZeroDivisionError

text \<open>One dictionary appended to \<^verbatim>\<open>rows\<close>; the fields carry the dictionary's keys.\<close>

record ledger_row =
  Period :: int
  Opening_Balance :: real
  Payment :: real
  Interest :: real
  Principal :: real
  Closing_Balance :: real

text \<open>The variables the loop reads and assigns.\<close>

record loop_state =
  balance :: real
  rows :: "ledger_row list"
  total_interest :: real
  total_principal :: real
  i_count :: int

section \<open>The payment formula\<close>

text \<open>Line 43: \<^verbatim>\<open>principal = max(purchase_price - down_payment, 0.0)\<close>.\<close>

definition effective_principal :: "real \<Rightarrow> real \<Rightarrow> real" where
  "effective_principal purchase_price down_payment = max (purchase_price - down_payment) 0"

text \<open>
  \<^verbatim>\<open>payment(principal, r, n)\<close>. A float division by zero raises
  \<^verbatim>\<open>ZeroDivisionError\<close> in Python, and so does raising zero to a negative power.
\<close>

definition payment :: "real \<Rightarrow> real \<Rightarrow> int \<Rightarrow> error + real" where
  "payment loan_principal r n =
     (if r = 0 then
        (if n = 0 then Inl ZeroDivisionError else Inr (loan_principal / of_int n))
      else if 1 + r = 0 \<and> n < 0 then Inl ZeroDivisionError
      else if (1 + r) powi n - 1 = 0 then Inl ZeroDivisionError
      else Inr (loan_principal * r * (1 + r) powi n / ((1 + r) powi n - 1)))"

text \<open>Line 66: the guarded call.\<close>

definition scheduled_payment :: "real \<Rightarrow> real \<Rightarrow> int \<Rightarrow> error + real" where
  "scheduled_payment loan_principal periodic_rate periods =
     (if loan_principal > 0 \<and> periods > 0 then payment loan_principal periodic_rate periods
      else Inr 0)"

section \<open>The schedule-build loop\<close>

text \<open>Lines 76 to 92: one pass through the loop body, up to the assignment of the balance.\<close>

definition loop_body :: "real \<Rightarrow> real \<Rightarrow> loop_state \<Rightarrow> loop_state" where
  "loop_body periodic_rate gross_payment s =
     (let i' = i_count s + 1;
          interest = balance s * periodic_rate;
          pc0 = (if periodic_rate \<ge> 0 then min (gross_payment - interest) (balance s)
                 else gross_payment);
          principal_component = (if pc0 < 0 then 0 else pc0);
          closing_balance = balance s - principal_component
      in \<lparr> balance = closing_balance,
           rows = rows s @ [\<lparr> Period = i', Opening_Balance = balance s,
                              Payment = gross_payment, Interest = interest,
                              Principal = principal_component,
                              Closing_Balance = closing_balance \<rparr>],
           total_interest = total_interest s + interest,
           total_principal = total_principal s + principal_component,
           i_count = i' \<rparr>)"

text \<open>
  Lines 75 to 95: the loop. After the body, a balance of at most 0.01 is set to zero and
  the loop is left; otherwise the condition is tested again.
\<close>

function build_loop :: "real \<Rightarrow> int \<Rightarrow> real \<Rightarrow> loop_state \<Rightarrow> loop_state" where
  "build_loop periodic_rate periods gross_payment s =
     (if balance s > 0 \<and> i_count s < periods + 5000 then
        (let s' = loop_body periodic_rate gross_payment s
         in if balance s' \<le> 0.01 then s'\<lparr> balance := 0 \<rparr>
            else build_loop periodic_rate periods gross_payment s')
      else s)"
  by pat_completeness auto
termination
  by (relation "measure (\<lambda>(r, n, g, s). nat (n + 5000 - i_count s))")
     (auto simp: loop_body_def Let_def)

declare build_loop.simps [simp del]

text \<open>Lines 70 to 74: the initial values, then the loop.\<close>

definition initial_state :: "real \<Rightarrow> loop_state" where
  "initial_state loan_principal =
     \<lparr> balance = loan_principal, rows = [], total_interest = 0, total_principal = 0, i_count = 0 \<rparr>"

definition build_schedule :: "real \<Rightarrow> real \<Rightarrow> int \<Rightarrow> real \<Rightarrow> loop_state" where
  "build_schedule loan_principal periodic_rate periods gross_payment =
     build_loop periodic_rate periods gross_payment (initial_state loan_principal)"

text \<open>
  Lines 66 to 95 together: the scheduled payment, the gross payment and the schedule.
  An error raised by \<^verbatim>\<open>payment\<close> ends the script.
\<close>

definition amortize :: "real \<Rightarrow> real \<Rightarrow> int \<Rightarrow> real \<Rightarrow> error + (real \<times> real \<times> loop_state)" where
  "amortize loan_principal periodic_rate periods extra_prepay =
     (case scheduled_payment loan_principal periodic_rate periods of
        Inl e \<Rightarrow> Inl e
      | Inr sp \<Rightarrow>
          (let gross_payment = sp + extra_prepay
           in Inr (sp, gross_payment,
                   build_schedule loan_principal periodic_rate periods gross_payment)))"

section \<open>Reasoning about the loop\<close>

text \<open>
  An invariant rule for the loop: \<open>I\<close> holds at the loop head, \<open>Q\<close> of the state the
  loop returns, whether it leaves by its condition or by the \<^verbatim>\<open>break\<close>.
\<close>

lemma build_loop_rule:
  assumes init: "I s"
    and step: "\<And>t. I t \<Longrightarrow> balance t > 0 \<Longrightarrow> i_count t < n + 5000 \<Longrightarrow>
                \<not> balance (loop_body r g t) \<le> 0.01 \<Longrightarrow> I (loop_body r g t)"
    and exit: "\<And>t. I t \<Longrightarrow> \<not> (balance t > 0 \<and> i_count t < n + 5000) \<Longrightarrow> Q t"
    and brk: "\<And>t. I t \<Longrightarrow> balance t > 0 \<Longrightarrow> i_count t < n + 5000 \<Longrightarrow>
                balance (loop_body r g t) \<le> 0.01 \<Longrightarrow> Q ((loop_body r g t)\<lparr> balance := 0 \<rparr>)"
  shows "Q (build_loop r n g s)"
  using init
proof (induction "nat (n + 5000 - i_count s)" arbitrary: s rule: less_induct)
  case less
  show ?case
  proof (cases "balance s > 0 \<and> i_count s < n + 5000")
    case False
    then have "build_loop r n g s = s"
      by (subst build_loop.simps) (simp only: if_False)
    moreover have "Q s"
      using less.prems False by (rule exit)
    ultimately show ?thesis by simp
  next
    case True
    then have pos: "balance s > 0" and lt: "i_count s < n + 5000"
      by simp_all
    show ?thesis
    proof (cases "balance (loop_body r g s) \<le> 0.01")
      case True
      have "build_loop r n g s = (loop_body r g s)\<lparr> balance := 0 \<rparr>"
        using pos lt True by (subst build_loop.simps) (simp add: Let_def)
      moreover have "Q ((loop_body r g s)\<lparr> balance := 0 \<rparr>)"
        using less.prems pos lt True by (rule brk)
      ultimately show ?thesis by simp
    next
      case False
      have eq: "build_loop r n g s = build_loop r n g (loop_body r g s)"
        using pos lt False by (subst build_loop.simps) (simp add: Let_def)
      have "I (loop_body r g s)"
        using less.prems pos lt False by (rule step)
      moreover have "nat (n + 5000 - i_count (loop_body r g s)) < nat (n + 5000 - i_count s)"
        using lt by (simp add: loop_body_def Let_def)
      ultimately have "Q (build_loop r n g (loop_body r g s))"
        by (rule less.hyps [rotated])
      with eq show ?thesis by simp
    qed
  qed
qed

text \<open>The equations that run the loop on a concrete input.\<close>

lemmas loop_eval = build_schedule_def initial_state_def build_loop.simps loop_body_def Let_def

text \<open>What one pass appends: a single row, closing at the balance the pass leaves.\<close>

lemma loop_body_appends:
  "\<exists>row. rows (loop_body r g t) = rows t @ [row] \<and>
         Opening_Balance row = balance t \<and>
         Closing_Balance row = balance (loop_body r g t) \<and>
         Closing_Balance row = Opening_Balance row - Principal row"
  by (simp add: loop_body_def Let_def)

lemma build_schedule_not_entered:
  "P \<le> 0 \<Longrightarrow> build_schedule P r n g = initial_state P"
  by (simp add: build_schedule_def build_loop.simps initial_state_def)

lemma build_schedule_nonempty:
  assumes "0 < P" and "0 < n + 5000"
  shows "rows (build_schedule P r n g) \<noteq> []"
  unfolding build_schedule_def
  by (rule build_loop_rule [where I = "\<lambda>t. t = initial_state P \<or> rows t \<noteq> []"])
     (use assms in \<open>auto simp: initial_state_def loop_body_def Let_def\<close>)

text \<open>
  A payment below the first period's interest on a balance above 0.01: the balance never
  moves and the loop runs to its cap.
\<close>

lemma stalled_schedule:
  assumes P: "1 / 100 < P" and g: "g < P * r" and n: "0 \<le> n"
  shows "balance (build_schedule P r n g) = P \<and>
         i_count (build_schedule P r n g) = n + 5000 \<and>
         int (length (rows (build_schedule P r n g))) = n + 5000 \<and>
         (\<forall>k < length (rows (build_schedule P r n g)).
            Principal (rows (build_schedule P r n g) ! k) = 0 \<and>
            Opening_Balance (rows (build_schedule P r n g) ! k) = P \<and>
            Closing_Balance (rows (build_schedule P r n g) ! k) = P)"
  unfolding build_schedule_def
proof (rule build_loop_rule [where I = "\<lambda>t. balance t = P \<and> 0 \<le> i_count t \<and>
        i_count t \<le> n + 5000 \<and> int (length (rows t)) = i_count t \<and>
        (\<forall>k < length (rows t). Principal (rows t ! k) = 0 \<and> Opening_Balance (rows t ! k) = P \<and>
            Closing_Balance (rows t ! k) = P)"], goal_cases)
  case 1
  show ?case using n by (simp add: initial_state_def)
next
  case (2 t)
  have "r < 0 \<Longrightarrow> g < 0"
    using P g mult_pos_neg [of P r] by simp
  with 2 show ?case using P g
    by (auto simp: loop_body_def Let_def nth_append min_def)
next
  case (3 t)
  then show ?case using P by auto
next
  case (4 t)
  have "r < 0 \<Longrightarrow> g < 0"
    using P g mult_pos_neg [of P r] by simp
  with 4 show ?case using P g
    by (auto simp: loop_body_def Let_def min_def split: if_splits)
qed

section \<open>The payment formula is defined for a non-negative rate\<close>

lemma growth_factor_gt_one:
  fixes r :: real
  assumes "0 < r" and "0 < n"
  shows "1 < (1 + r) powi n"
proof -
  from assms have "0 < nat n" by simp
  with assms have "1 < (1 + r) ^ nat n"
    by (intro one_less_power) simp_all
  with assms show ?thesis by (simp add: power_int_def)
qed

lemma payment_defined:
  assumes "0 \<le> r" and "0 < n"
  shows "payment P r n =
           Inr (if r = 0 then P / of_int n else P * r * (1 + r) powi n / ((1 + r) powi n - 1))"
proof (cases "r = 0")
  case True
  with assms show ?thesis by (simp add: payment_def)
next
  case False
  with assms have "0 < r" by simp
  from growth_factor_gt_one [OF this \<open>0 < n\<close>] have "(1 + r) powi n - 1 \<noteq> 0" by simp
  with False \<open>0 < r\<close> show ?thesis by (simp add: payment_def)
qed

section \<open>The arithmetic of one amortizing period\<close>

text \<open>
  With \<open>D = (1 + r)^N - 1\<close> and the payment \<open>A = P r (1 + r)^N / D\<close>, the balance after
  \<open>k\<close> periods is \<open>b\<close> with \<open>b D = P ((1 + r)^N - (1 + r)^k)\<close>. One more period takes
  \<open>A - b r\<close> off the balance, which is positive and at most \<open>b\<close>.
\<close>

lemma amortization_step:
  fixes P r b A D :: real and k N :: nat
  assumes r: "0 < r" and P: "0 < P" and k: "k < N"
    and D: "D = (1 + r) ^ N - 1"
    and b: "b * D = P * ((1 + r) ^ N - (1 + r) ^ k)"
    and A: "A = P * r * (1 + r) ^ N / D"
  shows "0 < A - b * r"
    and "A - b * r \<le> b"
    and "(b - (A - b * r)) * D = P * ((1 + r) ^ N - (1 + r) ^ Suc k)"
proof -
  have q1: "1 < 1 + r" using r by simp
  have Dpos: "0 < D"
    using one_less_power [OF q1, of N] k by (simp add: D)
  have AD: "A * D = P * r * (1 + r) ^ N"
    using Dpos by (simp add: A)
  have diff: "(A - b * r) * D = P * r * (1 + r) ^ k"
  proof -
    have "(A - b * r) * D = A * D - r * (b * D)" by (simp add: algebra_simps)
    also have "\<dots> = P * r * (1 + r) ^ N - r * (P * ((1 + r) ^ N - (1 + r) ^ k))"
      by (simp only: AD b)
    also have "\<dots> = P * r * (1 + r) ^ k" by (simp add: algebra_simps)
    finally show ?thesis .
  qed
  have "0 < P * r * (1 + r) ^ k" using r P by simp
  with diff have "0 < (A - b * r) * D" by simp
  with Dpos show "0 < A - b * r" by (simp add: zero_less_mult_iff)
  show next_bal: "(b - (A - b * r)) * D = P * ((1 + r) ^ N - (1 + r) ^ Suc k)"
  proof -
    have "(b - (A - b * r)) * D = b * D - (A - b * r) * D" by (simp add: algebra_simps)
    also have "\<dots> = P * ((1 + r) ^ N - (1 + r) ^ k) - P * r * (1 + r) ^ k"
      by (simp only: b diff)
    also have "\<dots> = P * ((1 + r) ^ N - (1 + r) ^ Suc k)" by (simp add: algebra_simps)
    finally show ?thesis .
  qed
  have "(1 + r) ^ Suc k \<le> (1 + r) ^ N"
    using q1 k by (intro power_increasing) simp_all
  then have "0 \<le> P * ((1 + r) ^ N - (1 + r) ^ Suc k)"
    using P by simp
  with next_bal have "0 \<le> (b - (A - b * r)) * D" by simp
  with Dpos have "0 \<le> b - (A - b * r)" by (simp add: zero_le_mult_iff)
  then show "A - b * r \<le> b" by simp
qed

lemma closed_form_balance:
  fixes P r b D :: real and k N :: nat
  assumes r: "0 < r" and P: "0 < P" and k: "k \<le> N" and N: "0 < N"
    and D: "D = (1 + r) ^ N - 1"
    and b: "b * D = P * ((1 + r) ^ N - (1 + r) ^ k)"
  shows "0 \<le> b" and "k = N \<Longrightarrow> b = 0"
proof -
  have q1: "1 < 1 + r" using r by simp
  have Dpos: "0 < D"
    using one_less_power [OF q1, of N] N by (simp add: D)
  have "(1 + r) ^ k \<le> (1 + r) ^ N"
    using q1 k by (intro power_increasing) simp_all
  then have "0 \<le> b * D" using P by (simp add: b)
  with Dpos show "0 \<le> b" by (simp add: zero_le_mult_iff)
  assume "k = N"
  with b have "b * D = 0" by simp
  with Dpos show "b = 0" by simp
qed

text \<open>The loop body on a state that follows the closed form.\<close>

lemma loop_body_amortizing:
  fixes P r A D :: real and k N :: nat
  assumes r: "0 < r" and P: "0 < P" and k: "k < N"
    and D: "D = (1 + r) ^ N - 1"
    and A: "A = P * r * (1 + r) ^ N / D"
    and b: "balance t * D = P * ((1 + r) ^ N - (1 + r) ^ k)"
    and i: "i_count t = int k" and len: "length (rows t) = k"
    and tp: "total_principal t = P - balance t"
  shows "balance (loop_body r A t) * D = P * ((1 + r) ^ N - (1 + r) ^ Suc k)"
    and "i_count (loop_body r A t) = int (Suc k)"
    and "length (rows (loop_body r A t)) = Suc k"
    and "total_principal (loop_body r A t) = P - balance (loop_body r A t)"
    and "rows (loop_body r A t) \<noteq> []"
    and "Closing_Balance (last (rows (loop_body r A t))) = balance (loop_body r A t)"
proof -
  note st = amortization_step [OF r P k D b A]
  have bal: "balance (loop_body r A t) = balance t - (A - balance t * r)"
    using st(1,2) r by (simp add: loop_body_def Let_def min_def)
  show "balance (loop_body r A t) * D = P * ((1 + r) ^ N - (1 + r) ^ Suc k)"
    using st(3) by (simp only: bal)
  show "i_count (loop_body r A t) = int (Suc k)"
    by (simp add: loop_body_def Let_def i)
  show "length (rows (loop_body r A t)) = Suc k"
    by (simp add: loop_body_def Let_def len)
  show "total_principal (loop_body r A t) = P - balance (loop_body r A t)"
    using st(1,2) r by (simp add: loop_body_def Let_def min_def tp)
  show "rows (loop_body r A t) \<noteq> []"
    by (simp add: loop_body_def Let_def)
  show "Closing_Balance (last (rows (loop_body r A t))) = balance (loop_body r A t)"
    by (simp add: loop_body_def Let_def)
qed

text \<open>The schedule built with the payment of the formula.\<close>

lemma amortizing_schedule:
  fixes P r :: real and n :: int
  assumes r: "0 < r" and P: "0 < P" and n: "0 < n"
  defines "A \<equiv> P * r * (1 + r) powi n / ((1 + r) powi n - 1)"
  shows "rows (build_schedule P r n A) \<noteq> [] \<and>
         int (length (rows (build_schedule P r n A))) \<le> n \<and>
         0 \<le> Closing_Balance (last (rows (build_schedule P r n A))) \<and>
         Closing_Balance (last (rows (build_schedule P r n A))) \<le> 1 / 100 \<and>
         (int (length (rows (build_schedule P r n A))) = n \<longrightarrow>
            Closing_Balance (last (rows (build_schedule P r n A))) = 0) \<and>
         balance (build_schedule P r n A) = 0 \<and>
         total_principal (build_schedule P r n A) =
           P - Closing_Balance (last (rows (build_schedule P r n A)))"
proof -
  define N where "N = nat n"
  define D where "D = (1 + r) ^ N - 1"
  have N: "0 < N" and nN: "n = int N" using n by (simp_all add: N_def)
  have pw: "(1 + r) powi n = (1 + r) ^ N"
    using n by (simp add: power_int_def N_def)
  have A: "A = P * r * (1 + r) ^ N / D"
    by (simp add: A_def pw D_def)
  define I where "I = (\<lambda>t::loop_state. \<exists>k < N.
      balance t * D = P * ((1 + r) ^ N - (1 + r) ^ k) \<and>
      i_count t = int k \<and> length (rows t) = k \<and> total_principal t = P - balance t)"
  define Q where "Q = (\<lambda>s::loop_state.
      rows s \<noteq> [] \<and> int (length (rows s)) \<le> n \<and>
      0 \<le> Closing_Balance (last (rows s)) \<and> Closing_Balance (last (rows s)) \<le> 1 / 100 \<and>
      (int (length (rows s)) = n \<longrightarrow> Closing_Balance (last (rows s)) = 0) \<and>
      balance s = 0 \<and>
      total_principal s = P - Closing_Balance (last (rows s)))"
  have "Q (build_loop r n A (initial_state P))"
  proof (rule build_loop_rule [where I = I])
    show "I (initial_state P)"
      unfolding I_def using N by (intro exI [of _ 0]) (simp add: initial_state_def D_def)
  next
    fix t
    assume "I t" and "\<not> balance (loop_body r A t) \<le> 0.01"
    then obtain k where k: "k < N"
      and b: "balance t * D = P * ((1 + r) ^ N - (1 + r) ^ k)"
      and i: "i_count t = int k" and len: "length (rows t) = k"
      and tp: "total_principal t = P - balance t"
      unfolding I_def by blast
    note lb = loop_body_amortizing [OF r P k D_def A b i len tp]
    have "Suc k \<le> N" using k by simp
    moreover have "Suc k \<noteq> N"
    proof
      assume "Suc k = N"
      with closed_form_balance(2) [OF r P \<open>Suc k \<le> N\<close> N D_def lb(1)]
      have "balance (loop_body r A t) = 0" by simp
      with \<open>\<not> balance (loop_body r A t) \<le> 0.01\<close> show False by simp
    qed
    ultimately have "Suc k < N" by simp
    with lb show "I (loop_body r A t)"
      unfolding I_def by (intro exI [of _ "Suc k"]) simp
  next
    fix t
    assume "I t" and ex: "\<not> (balance t > 0 \<and> i_count t < n + 5000)"
    then obtain k where k: "k < N"
      and b: "balance t * D = P * ((1 + r) ^ N - (1 + r) ^ k)"
      and i: "i_count t = int k"
      unfolding I_def by blast
    have "(1 + r) ^ k < (1 + r) ^ N"
      using r k by (intro power_strict_increasing) simp_all
    then have "0 < P * ((1 + r) ^ N - (1 + r) ^ k)" using P by simp
    with b have "0 < balance t * D" by simp
    moreover have "0 < D"
      using one_less_power [of "1 + r" N] r N by (simp add: D_def)
    ultimately have "0 < balance t" by (simp add: zero_less_mult_iff)
    with ex i k nN have False by simp
    then show "Q t" ..
  next
    fix t
    assume "I t" and le: "balance (loop_body r A t) \<le> 0.01"
    then obtain k where k: "k < N"
      and b: "balance t * D = P * ((1 + r) ^ N - (1 + r) ^ k)"
      and i: "i_count t = int k" and len: "length (rows t) = k"
      and tp: "total_principal t = P - balance t"
      unfolding I_def by blast
    note lb = loop_body_amortizing [OF r P k D_def A b i len tp]
    have sk: "Suc k \<le> N" using k by simp
    note bp = closed_form_balance [OF r P sk N D_def lb(1)]
    show "Q ((loop_body r A t)\<lparr> balance := 0 \<rparr>)"
      unfolding Q_def using lb(2-6) bp le sk nN by auto
  qed
  then show ?thesis by (simp add: build_schedule_def Q_def)
qed

section \<open>The payment formula in exact arithmetic\<close>

text \<open>
  The two facts of this section are facts of the real numbers. They say what the formula
  and the loop compute when no operation rounds, and they do not carry over to the
  double-precision arithmetic of the interpreter, where the sum \<open>1 + r\<close> is \<open>1\<close> for a
  positive \<open>r\<close> below \<open>2^-53\<close>, so that the divisor \<open>(1 + r)^n - 1\<close> is zero; where the
  power can overflow; and where the rounded payment can leave the balance of row
  \<open>periods\<close> above 0.01, so that one more row follows.
\<close>

text \<open>
  In exact arithmetic, for a positive principal, a positive periodic rate and a positive
  number of periods, the payment of the formula, fed to the loop with no extra
  prepayment, gives a schedule that is not empty and has at most \<open>periods\<close> rows. The
  closing balance of its last row lies between 0 and 0.01, and is exactly 0 when the
  schedule has \<open>periods\<close> rows; a loan small enough to fall to 0.01 earlier stops there
  with that residue. The accumulated \<open>total_principal\<close> is the principal minus that
  residue.
\<close>

lemma exact_arithmetic_payoff:
  "0 < P \<Longrightarrow> 0 < r \<Longrightarrow> 0 < periods \<Longrightarrow>
     (case amortize P r periods 0 of
        Inl e \<Rightarrow> False
      | Inr (sp, g, s) \<Rightarrow>
          rows s \<noteq> [] \<and> int (length (rows s)) \<le> periods \<and>
          0 \<le> Closing_Balance (last (rows s)) \<and> Closing_Balance (last (rows s)) \<le> 1 / 100 \<and>
          (int (length (rows s)) = periods \<longrightarrow> Closing_Balance (last (rows s)) = 0) \<and>
          balance s = 0 \<and>
          \<bar>total_principal s - P\<bar> \<le> 1 / 100)"
proof -
  assume P: "0 < P" and r: "0 < r" and n: "0 < periods"
  have sp: "scheduled_payment P r periods =
              Inr (P * r * (1 + r) powi periods / ((1 + r) powi periods - 1))"
    using P r n by (simp add: scheduled_payment_def payment_defined)
  from amortizing_schedule [OF r P n] show ?thesis
    by (simp add: amortize_def sp Let_def)
qed

lemma exact_arithmetic_payoff_example:
  "(0::real) < 100 \<and> (0::real) < 1/100 \<and> (0::int) < 2 \<and>
   amortize 100 (1/100) 2 0 =
     Inr (10201 / 201, 10201 / 201, build_schedule 100 (1/100) 2 (10201 / 201)) \<and>
   length (rows (build_schedule 100 (1/100) 2 (10201 / 201))) = 2 \<and>
   Closing_Balance (last (rows (build_schedule 100 (1/100) 2 (10201 / 201)))) = 0 \<and>
   \<bar>total_principal (build_schedule 100 (1/100) 2 (10201 / 201)) - 100\<bar> \<le> 1 / 100"
proof -
  have am: "amortize 100 (1/100) 2 0 =
      Inr (10201 / 201, 10201 / 201, build_schedule 100 (1/100) 2 (10201 / 201))"
    by (simp add: amortize_def scheduled_payment_def payment_def power_int_def power_divide Let_def)
  have len: "length (rows (build_schedule 100 (1/100) 2 (10201 / 201))) = 2"
    by (simp add: loop_eval)
  from exact_arithmetic_payoff [of 100 "1/100" 2] am len show ?thesis
    by simp
qed

text \<open>
  A loan of 0.02 at a periodic rate of 0.01 over 12 periods: the balance falls to about
  0.0086 in the seventh row, and the loop stops there, five rows early.
\<close>

lemma small_loan_stops_early:
  "(case amortize (2/100) (1/100) 12 0 of
      Inl e \<Rightarrow> False
    | Inr (sp, g, s) \<Rightarrow>
        length (rows s) = 7 \<and>
        Closing_Balance (last (rows s)) =
          54689678024959720661201 / 6341251506598486033060050 \<and>
        86 / 10000 < Closing_Balance (last (rows s)) \<and>
        Closing_Balance (last (rows s)) \<le> 1 / 100)"
proof -
  have "scheduled_payment (2/100) (1/100) 12 =
          Inr (1126825030131969720661201 / 634125150659848603306005000)"
    by (simp add: scheduled_payment_def payment_def power_int_def power_divide)
  then show ?thesis
    by (simp add: amortize_def loop_eval)
qed

text \<open>
  In exact arithmetic, for a non-negative principal, periodic rate, number of periods
  and extra prepayment, no divisor of the payment formula is zero where it is reached:
  neither \<open>periods\<close> in the zero-rate branch nor \<open>(1 + r)^periods - 1\<close> in the other.
\<close>

lemma exact_arithmetic_no_error:
  "0 \<le> P \<Longrightarrow> 0 \<le> r \<Longrightarrow> 0 \<le> periods \<Longrightarrow> 0 \<le> extra \<Longrightarrow>
     \<not> isl (amortize P r periods extra) \<and>
     (0 < P \<and> 0 < periods \<longrightarrow>
        (r = 0 \<longrightarrow> (of_int periods :: real) \<noteq> 0) \<and>
        (r \<noteq> 0 \<longrightarrow> (1 + r) powi periods - 1 \<noteq> 0))"
proof -
  assume r: "0 \<le> r"
  have "\<not> isl (scheduled_payment P r periods)"
    using r by (simp add: scheduled_payment_def payment_defined)
  then have "\<not> isl (amortize P r periods extra)"
    by (cases "scheduled_payment P r periods") (simp_all add: amortize_def Let_def)
  moreover have "0 < periods \<Longrightarrow> r \<noteq> 0 \<Longrightarrow> (1 + r) powi periods - 1 \<noteq> 0"
    using growth_factor_gt_one [of r periods] r by simp
  ultimately show ?thesis by auto
qed

lemma exact_arithmetic_no_error_example:
  "(0::real) \<le> 100 \<and> (0::real) \<le> 1/100 \<and> (0::int) \<le> 2 \<and> (0::real) \<le> 0 \<and>
   \<not> isl (amortize 100 (1/100) 2 0) \<and> (1 + 1/100 :: real) powi 2 - 1 \<noteq> 0 \<and>
   \<not> isl (amortize 100 0 2 0) \<and> (of_int 2 :: real) \<noteq> 0"
  using exact_arithmetic_no_error [of 100 "1/100" 2 0] exact_arithmetic_no_error [of 100 0 2 0] by simp

section \<open>The claims\<close>

text \<open>
  Claim C2. In every row of the schedule the closing balance is the opening balance
  minus the principal component; the first row opens with the principal; and every row
  after the first opens with the closing balance of the row before it.
\<close>

theorem ledger_rows_chained:
  "(\<forall>k < length (rows (build_schedule P r n g)).
       Closing_Balance (rows (build_schedule P r n g) ! k) =
         Opening_Balance (rows (build_schedule P r n g) ! k)
           - Principal (rows (build_schedule P r n g) ! k)) \<and>
   (rows (build_schedule P r n g) \<noteq> [] \<longrightarrow>
       Opening_Balance (rows (build_schedule P r n g) ! 0) = P) \<and>
   (\<forall>k. Suc k < length (rows (build_schedule P r n g)) \<longrightarrow>
       Opening_Balance (rows (build_schedule P r n g) ! Suc k) =
         Closing_Balance (rows (build_schedule P r n g) ! k))"
  unfolding build_schedule_def
proof (rule build_loop_rule [where I = "\<lambda>t.
      (\<forall>k < length (rows t). Closing_Balance (rows t ! k) =
          Opening_Balance (rows t ! k) - Principal (rows t ! k)) \<and>
      (rows t \<noteq> [] \<longrightarrow> Opening_Balance (rows t ! 0) = P) \<and>
      (\<forall>k. Suc k < length (rows t) \<longrightarrow>
          Opening_Balance (rows t ! Suc k) = Closing_Balance (rows t ! k)) \<and>
      (rows t = [] \<longrightarrow> balance t = P) \<and>
      (\<forall>k. Suc k = length (rows t) \<longrightarrow> balance t = Closing_Balance (rows t ! k))"],
    goal_cases)
  case 1
  show ?case by (simp add: initial_state_def)
next
  case (2 t)
  then show ?case
    by (auto simp: loop_body_def Let_def nth_append less_Suc_eq)
next
  case (3 t)
  then show ?case by simp
next
  case (4 t)
  then show ?case
    by (auto simp: loop_body_def Let_def nth_append less_Suc_eq)
qed

theorem ledger_rows_chained_witness:
  "length (rows (build_schedule 100 (1/100) 2 51)) = 2 \<and>
   Opening_Balance (rows (build_schedule 100 (1/100) 2 51) ! 0) = 100 \<and>
   Closing_Balance (rows (build_schedule 100 (1/100) 2 51) ! 0) = 50 \<and>
   Opening_Balance (rows (build_schedule 100 (1/100) 2 51) ! Suc 0) = 50 \<and>
   Closing_Balance (rows (build_schedule 100 (1/100) 2 51) ! Suc 0) = 0"
proof -
  have len: "length (rows (build_schedule 100 (1/100) 2 51)) = 2"
    by (simp add: loop_eval)
  have p0: "Principal (rows (build_schedule 100 (1/100) 2 51) ! 0) = 50"
    by (simp add: loop_eval)
  have p1: "Principal (rows (build_schedule 100 (1/100) 2 51) ! Suc 0) = 50"
    by (simp add: loop_eval)
  from len have ne: "rows (build_schedule 100 (1/100) 2 51) \<noteq> []" by auto
  note c = ledger_rows_chained [of 100 "1/100" 2 51]
  from c ne have o0: "Opening_Balance (rows (build_schedule 100 (1/100) 2 51) ! 0) = 100"
    by blast
  from c len p0 o0 have c0: "Closing_Balance (rows (build_schedule 100 (1/100) 2 51) ! 0) = 50"
    by simp
  from c len c0 have o1: "Opening_Balance (rows (build_schedule 100 (1/100) 2 51) ! Suc 0) = 50"
    by simp
  from c len p1 o1 have c1: "Closing_Balance (rows (build_schedule 100 (1/100) 2 51) ! Suc 0) = 0"
    by simp
  from len o0 c0 o1 c1 show ?thesis by simp
qed

text \<open>
  Claim C3. For a non-negative number of periods the loop ends after at most
  \<open>periods + 5000\<close> passes: the counter \<open>i\<close> it leaves is at most \<open>periods + 5000\<close>, and
  the schedule has as many rows as the counter says. That the loop ends at all is the
  termination proof of \<open>build_loop\<close>.
\<close>

theorem loop_iteration_cap:
  "0 \<le> periods \<Longrightarrow>
     i_count (build_schedule P r periods g) \<le> periods + 5000 \<and>
     int (length (rows (build_schedule P r periods g))) = i_count (build_schedule P r periods g) \<and>
     int (length (rows (build_schedule P r periods g))) \<le> periods + 5000"
  unfolding build_schedule_def
  by (rule build_loop_rule [where I = "\<lambda>t. 0 \<le> i_count t \<and> i_count t \<le> periods + 5000 \<and>
         int (length (rows t)) = i_count t"])
     (auto simp: initial_state_def loop_body_def Let_def)

theorem loop_iteration_cap_witness:
  "(0::int) \<le> 12 \<and> int (length (rows (build_schedule 1000 (1/100) 12 5))) \<le> 5012"
  using loop_iteration_cap [of 12 1000 "1/100" 5] by simp

text \<open>
  Claim C4. With a positive principal, a positive number of periods and a periodic rate
  of zero, the scheduled payment is the principal divided by the number of periods.
\<close>

theorem zero_rate_payment:
  "0 < P \<Longrightarrow> 0 < periods \<Longrightarrow> scheduled_payment P 0 periods = Inr (P / of_int periods)"
  by (simp add: scheduled_payment_def payment_def)

theorem zero_rate_payment_witness:
  "(0::real) < 1200 \<and> (0::int) < 12 \<and> scheduled_payment 1200 0 12 = Inr 100"
  using zero_rate_payment [of 1200 12] by simp

text \<open>
  Claim C5, as the code has it. With a principal of zero or zero periods, and no extra
  prepayment, the scheduled payment is 0. The schedule is empty when the principal is
  zero; with zero periods and a positive principal it is not empty, since the loop tests
  the balance and the cap \<open>periods + 5000\<close> only.
\<close>

theorem zero_principal_or_periods:
  "P = 0 \<or> periods = 0 \<Longrightarrow>
     amortize P r periods 0 = Inr (0, 0, build_schedule P r periods 0) \<and>
     (P = 0 \<longrightarrow> rows (build_schedule P r periods 0) = []) \<and>
     (periods = 0 \<and> 0 < P \<longrightarrow> rows (build_schedule P r periods 0) \<noteq> [])"
proof -
  assume a: "P = 0 \<or> periods = 0"
  then have "amortize P r periods 0 = Inr (0, 0, build_schedule P r periods 0)"
    by (auto simp: amortize_def scheduled_payment_def)
  moreover have "P = 0 \<longrightarrow> rows (build_schedule P r periods 0) = []"
    by (simp add: build_schedule_not_entered initial_state_def)
  moreover have "periods = 0 \<and> 0 < P \<longrightarrow> rows (build_schedule P r periods 0) \<noteq> []"
    by (simp add: build_schedule_nonempty)
  ultimately show ?thesis by simp
qed

theorem zero_principal_or_periods_witness:
  "((0::real) = 0 \<or> (240::int) = 0) \<and>
   amortize 0 (1/100) 240 0 = Inr (0, 0, build_schedule 0 (1/100) 240 0) \<and>
   rows (build_schedule 0 (1/100) 240 0) = [] \<and>
   ((1000::real) = 0 \<or> (0::int) = 0) \<and> (0::real) < 1000 \<and>
   amortize 1000 (1/100) 0 0 = Inr (0, 0, build_schedule 1000 (1/100) 0 0) \<and>
   rows (build_schedule 1000 (1/100) 0 0) \<noteq> []"
  using zero_principal_or_periods [of 0 240 "1/100"] zero_principal_or_periods [of 1000 0 "1/100"]
  by simp

text \<open>
  Claim C5 as stated fails: with a principal of 1000, a periodic rate of 0.01 and zero
  periods the scheduled payment is 0, and the schedule has 5000 rows.
\<close>

theorem zero_periods_schedule_counterexample:
  "((1000::real) = 0 \<or> (0::int) = 0) \<and>
   amortize 1000 (1/100) 0 0 = Inr (0, 0, build_schedule 1000 (1/100) 0 0) \<and>
   int (length (rows (build_schedule 1000 (1/100) 0 0))) = 5000 \<and>
   rows (build_schedule 1000 (1/100) 0 0) \<noteq> []"
proof -
  have "amortize 1000 (1/100) 0 0 = Inr (0, 0, build_schedule 1000 (1/100) 0 0)"
    by (simp add: amortize_def scheduled_payment_def)
  moreover have len: "int (length (rows (build_schedule 1000 (1/100) 0 0))) = 5000"
    using stalled_schedule [of 1000 0 "1/100" 0] by simp
  moreover from len have "rows (build_schedule 1000 (1/100) 0 0) \<noteq> []"
    by auto
  ultimately show ?thesis by simp
qed

text \<open>
  Claim C6, as the code has it. A row whose closing balance is at most 0.01 is the last
  row of the schedule: the loop stops there and leaves its variable \<open>balance\<close> at 0. The
  closing balance stored in that row is the one computed before, the opening balance
  minus the principal component; the row is appended before the variable is set to 0.
\<close>

theorem residue_row_is_last:
  "\<forall>k < length (rows (build_schedule P r n g)).
      Closing_Balance (rows (build_schedule P r n g) ! k) \<le> 1 / 100 \<longrightarrow>
        Suc k = length (rows (build_schedule P r n g)) \<and>
        balance (build_schedule P r n g) = 0 \<and>
        Closing_Balance (rows (build_schedule P r n g) ! k) =
          Opening_Balance (rows (build_schedule P r n g) ! k)
            - Principal (rows (build_schedule P r n g) ! k)"
  unfolding build_schedule_def
proof (rule build_loop_rule [where I = "\<lambda>t. \<forall>k < length (rows t).
         1 / 100 < Closing_Balance (rows t ! k)"], goal_cases)
  case 1
  show ?case by (simp add: initial_state_def)
next
  case (2 t)
  from loop_body_appends [of r g t] obtain row
    where rw: "rows (loop_body r g t) = rows t @ [row]"
      and cl: "Closing_Balance row = balance (loop_body r g t)"
    by blast
  from 2(4) cl have "1 / 100 < Closing_Balance row" by simp
  with 2(1) show ?case
    by (auto simp: rw nth_append less_Suc_eq)
next
  case (3 t)
  then show ?case by auto
next
  case (4 t)
  from loop_body_appends [of r g t] obtain row
    where rw: "rows (loop_body r g t) = rows t @ [row]"
      and eq: "Closing_Balance row = Opening_Balance row - Principal row"
    by blast
  have "k < length (rows t) \<Longrightarrow> \<not> Closing_Balance (rows t ! k) \<le> 1 / 100" for k
    using 4(1) by auto
  then show ?case
    using eq by (auto simp: rw nth_append less_Suc_eq)
qed

theorem residue_row_is_last_witness:
  "length (rows (build_schedule 100 (1/100) 12 (100995/1000))) = 1 \<and>
   Closing_Balance (rows (build_schedule 100 (1/100) 12 (100995/1000)) ! 0) = 1 / 200 \<and>
   balance (build_schedule 100 (1/100) 12 (100995/1000)) = 0 \<and>
   Closing_Balance (rows (build_schedule 100 (1/100) 12 (100995/1000)) ! 0) =
     Opening_Balance (rows (build_schedule 100 (1/100) 12 (100995/1000)) ! 0)
       - Principal (rows (build_schedule 100 (1/100) 12 (100995/1000)) ! 0)"
proof -
  have len: "length (rows (build_schedule 100 (1/100) 12 (100995/1000))) = 1"
    by (simp add: loop_eval)
  have cl: "Closing_Balance (rows (build_schedule 100 (1/100) 12 (100995/1000)) ! 0) = 1 / 200"
    by (simp add: loop_eval)
  from residue_row_is_last [of 100 "1/100" 12 "100995/1000"] len cl show ?thesis
    by simp
qed

text \<open>
  Claim C6 as stated fails. A principal of 100 at a periodic rate of 0.01 over 12 periods
  with a gross payment of 100.995: the interest is 1, the principal component 99.995, and
  the only row closes at 0.005, which is at most 0.01 and not 0. The loop's variable
  \<open>balance\<close> is 0 afterwards.
\<close>

theorem final_row_keeps_residue_counterexample:
  "rows (build_schedule 100 (1/100) 12 (100995/1000)) =
     [\<lparr> Period = 1, Opening_Balance = 100, Payment = 100995/1000, Interest = 1,
        Principal = 99995/1000, Closing_Balance = 1/200 \<rparr>] \<and>
   Closing_Balance (last (rows (build_schedule 100 (1/100) 12 (100995/1000)))) \<le> 1 / 100 \<and>
   Closing_Balance (last (rows (build_schedule 100 (1/100) 12 (100995/1000)))) \<noteq> 0 \<and>
   balance (build_schedule 100 (1/100) 12 (100995/1000)) = 0"
  by (simp add: loop_eval)

text \<open>
  The same through the whole computation: a principal of 100 at a periodic rate of 0.01
  over 12 periods with an extra prepayment of 92.11. The scheduled payment is about
  8.8849, and the first row closes at about 0.0051.
\<close>

lemma prepayment_leaves_residue:
  "(case amortize 100 (1/100) 12 (9211/100) of
      Inl e \<Rightarrow> False
    | Inr (sp, g, s) \<Rightarrow>
        length (rows s) = 1 \<and>
        Closing_Balance (last (rows s)) \<le> 1 / 100 \<and>
        Closing_Balance (last (rows s)) \<noteq> 0 \<and>
        Closing_Balance (last (rows s)) = 64948774124109601687589 / 12682503013196972066120100 \<and>
        balance s = 0)"
proof -
  have "scheduled_payment 100 (1/100) 12 =
          Inr (1126825030131969720661201 / 126825030131969720661201)"
    by (simp add: scheduled_payment_def payment_def power_int_def power_divide)
  then show ?thesis
    by (simp add: amortize_def loop_eval)
qed

text \<open>
  Claim C7, as the code has it. With a principal above 0.01, a gross payment strictly
  below the first period's interest and a non-negative number of periods, the schedule
  has exactly \<open>periods + 5000\<close> rows, and in every row the principal component is 0 and
  the closing balance equals the opening balance.
\<close>

theorem insufficient_payment_stalls:
  "1 / 100 < P \<Longrightarrow> g < P * r \<Longrightarrow> 0 \<le> periods \<Longrightarrow>
     int (length (rows (build_schedule P r periods g))) = periods + 5000 \<and>
     (\<forall>k < length (rows (build_schedule P r periods g)).
        Principal (rows (build_schedule P r periods g) ! k) = 0 \<and>
        Closing_Balance (rows (build_schedule P r periods g) ! k) =
          Opening_Balance (rows (build_schedule P r periods g) ! k))"
  using stalled_schedule [of P g r periods] by simp

theorem insufficient_payment_stalls_witness:
  "(1/100 :: real) < 1000 \<and> (5::real) < 1000 * (1/100) \<and> (0::int) \<le> 12 \<and>
   int (length (rows (build_schedule 1000 (1/100) 12 5))) = 5012 \<and>
   Principal (rows (build_schedule 1000 (1/100) 12 5) ! 0) = 0 \<and>
   Closing_Balance (rows (build_schedule 1000 (1/100) 12 5) ! 0) =
     Opening_Balance (rows (build_schedule 1000 (1/100) 12 5) ! 0)"
proof -
  note st = insufficient_payment_stalls [of 1000 5 "1/100" 12]
  have len: "int (length (rows (build_schedule 1000 (1/100) 12 5))) = 5012"
    using st by simp
  then have "0 < length (rows (build_schedule 1000 (1/100) 12 5))" by auto
  with st len show ?thesis by simp
qed

text \<open>
  Claim C7 as stated fails for a positive principal of at most 0.01: with a principal of
  0.01, a periodic rate of 0.01, 12 periods and a gross payment of 0, which is below the
  interest of 0.0001, the first row closes at 0.01 and the loop stops after that one row.
\<close>

theorem small_principal_counterexample:
  "(0::real) < 1/100 \<and> (0::real) < (1/100) * (1/100) \<and>
   length (rows (build_schedule (1/100) (1/100) 12 0)) = 1 \<and>
   int (length (rows (build_schedule (1/100) (1/100) 12 0))) \<noteq> 12 + 5000"
  by (simp add: loop_eval)

text \<open>
  Claim C8. In every row of the schedule the principal component is not negative and the
  closing balance is at most the opening balance.
\<close>

theorem principal_component_nonneg:
  "\<forall>k < length (rows (build_schedule P r n g)).
       0 \<le> Principal (rows (build_schedule P r n g) ! k) \<and>
       Closing_Balance (rows (build_schedule P r n g) ! k)
         \<le> Opening_Balance (rows (build_schedule P r n g) ! k)"
  unfolding build_schedule_def
  by (rule build_loop_rule [where I = "\<lambda>t. \<forall>k < length (rows t).
         0 \<le> Principal (rows t ! k) \<and> Closing_Balance (rows t ! k) \<le> Opening_Balance (rows t ! k)"])
     (auto simp: initial_state_def loop_body_def Let_def nth_append)

theorem principal_component_nonneg_witness:
  "length (rows (build_schedule 100 (1/100) 2 51)) = 2 \<and>
   0 \<le> Principal (rows (build_schedule 100 (1/100) 2 51) ! 0) \<and>
   Closing_Balance (rows (build_schedule 100 (1/100) 2 51) ! 0)
     \<le> Opening_Balance (rows (build_schedule 100 (1/100) 2 51) ! 0)"
proof -
  have len: "length (rows (build_schedule 100 (1/100) 2 51)) = 2"
    by (simp add: loop_eval)
  with principal_component_nonneg [of 100 "1/100" 2 51] show ?thesis
    by simp
qed

text \<open>
  Claim C10. For a non-negative number of periods, the schedule built for the effective
  principal of line 43 is empty if and only if that principal is 0; so a positive
  principal gives at least one row, also with zero periods.
\<close>

theorem schedule_empty_iff:
  "0 \<le> periods \<Longrightarrow>
     (rows (build_schedule (effective_principal purchase_price down_payment) r periods g) = []
        \<longleftrightarrow> effective_principal purchase_price down_payment = 0)"
proof -
  assume n: "0 \<le> periods"
  have nonneg: "0 \<le> effective_principal purchase_price down_payment"
    by (simp add: effective_principal_def)
  show ?thesis
  proof (cases "effective_principal purchase_price down_payment = 0")
    case True
    then show ?thesis
      by (simp add: build_schedule_not_entered initial_state_def)
  next
    case False
    with nonneg have "0 < effective_principal purchase_price down_payment" by simp
    with n have "rows (build_schedule (effective_principal purchase_price down_payment) r periods g) \<noteq> []"
      by (intro build_schedule_nonempty) simp_all
    with False show ?thesis by simp
  qed
qed

theorem schedule_empty_iff_witness:
  "(0::int) \<le> 0 \<and> effective_principal 1000 200 \<noteq> 0 \<and>
   rows (build_schedule (effective_principal 1000 200) (1/100) 0 0) \<noteq> [] \<and>
   effective_principal 200 200 = 0 \<and>
   rows (build_schedule (effective_principal 200 200) (1/100) 0 0) = []"
  using schedule_empty_iff [of 0 1000 200 "1/100" 0] schedule_empty_iff [of 0 200 200 "1/100" 0]
  by (simp add: effective_principal_def)

end
